theory Spec2Isabelle
  imports Complex_Main
begin

section \<open>JavaScript values used by the plugin\<close>

text \<open>
  A JavaScript number is a real value or \<open>NaN\<close>.  The two infinities are outside the
  model (no arithmetic of the plugin produces \<open>NaN\<close> from them, since pointer coordinates
  are finite), and so are the rounding and the overflow of doubles.  A string is the list
  of the bytes of its UTF-8 form, so only well-formed strings (no lone surrogate) are
  represented.  An optional property or an \<open>undefined\<close> value is \<open>None\<close>.
\<close>

datatype number = NaN | Num real

text \<open>The type \<^verbatim>\<open>number | string\<close> of a width.\<close>

datatype numstr = WNum number | WStr string

datatype error = TypeError

text \<open>Truthiness of a number, and \<^verbatim>\<open>a || b\<close> on numbers: \<open>NaN\<close> and \<open>0\<close> are falsy.\<close>

fun truthy :: "number \<Rightarrow> bool" where
  "truthy NaN = False"
| "truthy (Num r) = (r \<noteq> 0)"

definition num_or :: "number \<Rightarrow> number \<Rightarrow> number" where
  "num_or a b = (if truthy a then a else b)"

text \<open>\<^verbatim>\<open>Math.max(a, x)\<close> with a literal first argument, and \<^verbatim>\<open>Math.round\<close> (half up).\<close>

fun Math_max :: "real \<Rightarrow> number \<Rightarrow> number" where
  "Math_max a NaN = NaN"
| "Math_max a (Num r) = Num (max a r)"

fun Math_round :: "number \<Rightarrow> number" where
  "Math_round NaN = NaN"
| "Math_round (Num r) = Num (of_int \<lfloor>r + 1 / 2\<rfloor>)"

fun num_add :: "number \<Rightarrow> real \<Rightarrow> number" where
  "num_add NaN d = NaN"
| "num_add (Num r) d = Num (r + d)"

text \<open>
  \<^verbatim>\<open>s || d\<close> for the answer \<open>s\<close> of \<^verbatim>\<open>window.prompt\<close> (\<open>None\<close> is \<^verbatim>\<open>null\<close>, the
  dialog cancelled): \<^verbatim>\<open>null\<close> and the empty string are falsy.
\<close>

fun str_or :: "string option \<Rightarrow> string \<Rightarrow> string" where
  "str_or None d = d"
| "str_or (Some s) d = (if s = [] then d else s)"

text \<open>\<^verbatim>\<open>/%$/.test(s)\<close> and \<^verbatim>\<open>s.endsWith("%")\<close>.\<close>

definition ends_with_percent :: "string \<Rightarrow> bool" where
  "ends_with_percent s = (case rev s of [] \<Rightarrow> False | c # r \<Rightarrow> c = CHR ''%'')"

text \<open>
  \<^verbatim>\<open>toLowerCase\<close>, on the ASCII letters.  The plugin only compares the result with
  \<^verbatim>\<open>"y"\<close>, and no character outside ASCII has the lower case \<^verbatim>\<open>y\<close>.
\<close>

definition lower_char :: "char \<Rightarrow> char" where
  "lower_char c =
     (let n = (of_char c :: nat) in if 65 \<le> n \<and> n \<le> 90 then char_of (n + 32) else c)"

definition toLowerCase :: "string \<Rightarrow> string" where
  "toLowerCase s = map lower_char s"

text \<open>
  The built-ins that read a string the user typed are parameters of the model: \<open>Number_str\<close> is
  \<^verbatim>\<open>Number(s)\<close> on a string, \<open>trim\<close> is \<^verbatim>\<open>s.trim()\<close>.  Every theorem below holds for all
  of their values.
\<close>

record js =
  Number_str :: "string \<Rightarrow> number"
  trim :: "string \<Rightarrow> string"

text \<open>\<^verbatim>\<open>Number(x)\<close> for the answer of a prompt: \<^verbatim>\<open>Number(null)\<close> is \<open>0\<close>.\<close>

fun Number_prompt :: "js \<Rightarrow> string option \<Rightarrow> number" where
  "Number_prompt J None = Num 0"
| "Number_prompt J (Some s) = Number_str J s"

text \<open>
  \<^verbatim>\<open>xs[i]\<close> for a number \<open>i\<close>: an element when \<open>i\<close> is an integer within the array,
  \<^verbatim>\<open>undefined\<close> otherwise.
\<close>

definition array_get :: "'a list \<Rightarrow> real \<Rightarrow> 'a option" where
  "array_get xs i =
     (if i = of_int \<lfloor>i\<rfloor> \<and> 0 \<le> i \<and> \<lfloor>i\<rfloor> < int (length xs)
      then Some (xs ! nat \<lfloor>i\<rfloor>) else None)"

section \<open>Types of the plugin\<close>

datatype ToolbarPos = Bottom | Top | Hidden

fun ToolbarPos_str :: "ToolbarPos \<Rightarrow> string" where
  "ToolbarPos_str Bottom = ''bottom''"
| "ToolbarPos_str Top = ''top''"
| "ToolbarPos_str Hidden = ''hidden''"

text \<open>
  \<^verbatim>\<open>TableauParams\<close>, also read as \<^verbatim>\<open>Partial<TableauParams>\<close> and as the attribute
  object a host hands to the renderer: a property that is absent is \<open>None\<close>.
\<close>

record TableauParams =
  server :: "string option"
  workbook :: "string option"
  view :: "string option"
  width :: "numstr option"
  height :: "number option"
  toolbar :: "ToolbarPos option"
  inline :: "bool option"
  label :: "string option"

definition no_params :: TableauParams where
  "no_params = \<lparr> server = None, workbook = None, view = None, width = None, height = None,
     toolbar = None, inline = None, label = None \<rparr>"

text \<open>\<^verbatim>\<open>TableauEmbedNode\<close>; a child \<^verbatim>\<open>{ text }\<close> is its text.\<close>

record TableauEmbedNode =
  type :: string
  attrs :: "TableauParams option"
  children :: "string list"

definition PLUGIN_NAME :: string where
  "PLUGIN_NAME = ''tableau_embed''"

section \<open>The URL builder\<close>

text \<open>
  \<^verbatim>\<open>encodeURIComponent\<close>: the unreserved characters stay, every other byte of the UTF-8
  form becomes \<^verbatim>\<open>%XX\<close> in upper-case hexadecimal.
\<close>

definition unreserved :: "char \<Rightarrow> bool" where
  "unreserved c =
     (c \<in> set (''ABCDEFGHIJKLMNOPQRSTUVWXYZabcdefghijklmnopqrstuvwxyz0123456789-_.!~*()''
                @ [CHR 0x27]))"

definition hex_digit :: "nat \<Rightarrow> char" where
  "hex_digit n = ''0123456789ABCDEF'' ! (n mod 16)"

definition percent_byte :: "char \<Rightarrow> string" where
  "percent_byte c = [CHR ''%'', hex_digit (of_char c div 16), hex_digit (of_char c)]"

definition encodeURIComponent :: "string \<Rightarrow> string" where
  "encodeURIComponent s = concat (map (\<lambda>c. if unreserved c then [c] else percent_byte c) s)"

text \<open>\<^verbatim>\<open>server.replace(/\/$/, "")\<close>: the pattern matches one slash at the end of the input.\<close>

definition replace_trailing_slash :: "string \<Rightarrow> string" where
  "replace_trailing_slash s =
     (case rev s of [] \<Rightarrow> s | c # r \<Rightarrow> if c = CHR ''/'' then rev r else s)"

definition buildTableauUrl ::
  "string \<Rightarrow> string \<Rightarrow> string \<Rightarrow> ToolbarPos option \<Rightarrow> string" where
  "buildTableauUrl srv wb vw tb =
     (let base = replace_trailing_slash srv @ ''/views/'' @ encodeURIComponent wb
                 @ ''/'' @ encodeURIComponent vw
      in base @ ''?:embed=y&:showVizHome=no''
           @ (case tb of Some t \<Rightarrow> ''&:toolbar='' @ ToolbarPos_str t | None \<Rightarrow> []))"

section \<open>The parameter picker\<close>

record preset =
  preset_label :: string
  preset_server :: string
  preset_workbook :: string
  preset_view :: string

text \<open>The dash of the labels is U+2013, the bytes E2 80 93.\<close>

definition en_dash :: string where
  "en_dash = [CHR 0xE2, CHR 0x80, CHR 0x93]"

definition PUBLIC_PRESETS :: "preset list" where
  "PUBLIC_PRESETS =
    [ \<lparr> preset_label = ''Superstore '' @ en_dash @ '' Overview'',
        preset_server = ''https://public.tableau.com'',
        preset_workbook = ''Superstore_116'', preset_view = ''Overview'' \<rparr>,
      \<lparr> preset_label = ''Regional Sample '' @ en_dash @ '' Storms'',
        preset_server = ''https://public.tableau.com'',
        preset_workbook = ''RegionalSampleWorkbook'', preset_view = ''Storms'' \<rparr>,
      \<lparr> preset_label = ''World Indicators '' @ en_dash @ '' GDP per capita'',
        preset_server = ''https://public.tableau.com'',
        preset_workbook = ''WorldIndicators'', preset_view = ''GDPpercapita'' \<rparr>,
      \<lparr> preset_label = ''COVID-19 '' @ en_dash @ '' Dashboard1'',
        preset_server = ''https://public.tableau.com'',
        preset_workbook = ''COVID-19Cases_15855288078310'', preset_view = ''Dashboard1'' \<rparr>,
      \<lparr> preset_label = ''Global Superstore '' @ en_dash @ '' OrdersDashboard'',
        preset_server = ''https://public.tableau.com'',
        preset_workbook = ''GlobalSuperstoreOrders'', preset_view = ''OrdersDashboard'' \<rparr> ]"

text \<open>
  What the user answers to each \<^verbatim>\<open>window.prompt\<close> of the picker, in the order of the
  source; \<open>None\<close> is a cancelled dialog.  A prompt the picker does not reach is not read.
\<close>

record prompts =
  choiceRaw :: "string option"
  serverIn :: "string option"
  workbookIn :: "string option"
  viewIn :: "string option"
  widthIn :: "string option"
  heightIn :: "string option"
  toolbarIn :: "string option"
  inlineIn :: "string option"

text \<open>The custom flow: the prompts after the menu.\<close>

definition picker_custom :: "js \<Rightarrow> prompts \<Rightarrow> TableauParams option" where
  "picker_custom J pr =
     (let srv = str_or (serverIn pr) [] in
      if srv = [] then None else
      let wb = str_or (workbookIn pr) [] in
      if wb = [] then None else
      let vw = str_or (viewIn pr) [] in
      if vw = [] then None else
      let widthStr = str_or (widthIn pr) ''100%'';
          heightStr = str_or (heightIn pr) ''520'';
          tbIn = str_or (toolbarIn pr) ''bottom'';
          inl = (toLowerCase (str_or (inlineIn pr) ''n'') = ''y'');
          w = (if ends_with_percent widthStr then WStr widthStr
               else if truthy (Number_str J widthStr) then WNum (Number_str J widthStr)
               else WStr ''100%'');
          h = num_or (Number_str J heightStr) (Num 520);
          tb = (if tbIn = ''top'' then Top else if tbIn = ''hidden'' then Hidden else Bottom)
      in Some \<lparr> server = Some srv, workbook = Some wb, view = Some vw, width = Some w,
                  height = Some h, toolbar = Some tb, inline = Some inl,
                  label = Some (wb @ ''/'' @ vw) \<rparr>)"

text \<open>
  \<^verbatim>\<open>openTableauPicker(defaults)\<close>.  \<open>Inr None\<close> is the result \<^verbatim>\<open>null\<close>; \<open>Inl TypeError\<close> is
  the rejection when \<^verbatim>\<open>PUBLIC_PRESETS[choice - 1]\<close> is \<^verbatim>\<open>undefined\<close> and its \<^verbatim>\<open>server\<close> is
  read.
\<close>

definition openTableauPicker ::
  "js \<Rightarrow> prompts \<Rightarrow> TableauParams \<Rightarrow> error + TableauParams option" where
  "openTableauPicker J pr defaults =
     (case Number_prompt J (choiceRaw pr) of
        NaN \<Rightarrow> Inr (picker_custom J pr)
      | Num choice \<Rightarrow>
          if 1 \<le> choice \<and> choice \<le> real (length PUBLIC_PRESETS) then
            (case array_get PUBLIC_PRESETS (choice - 1) of
               None \<Rightarrow> Inl TypeError
             | Some p \<Rightarrow>
                 Inr (Some \<lparr> server = Some (preset_server p),
                             workbook = Some (preset_workbook p),
                             view = Some (preset_view p),
                             width = Some (case width defaults of Some w \<Rightarrow> w
                                           | None \<Rightarrow> WStr ''100%''),
                             height = Some (case height defaults of Some h \<Rightarrow> h
                                            | None \<Rightarrow> Num 520),
                             toolbar = Some (case toolbar defaults of Some t \<Rightarrow> t
                                             | None \<Rightarrow> Bottom),
                             inline = Some (case inline defaults of Some b \<Rightarrow> b
                                            | None \<Rightarrow> False),
                             label = Some (preset_label p) \<rparr>))
          else Inr (picker_custom J pr))"

section \<open>The host and the toolbar handlers\<close>

text \<open>
  The host object (\<^verbatim>\<open>rte\<close>): its optional \<^verbatim>\<open>name\<close>, and for each callback whether
  \<^verbatim>\<open>typeof rte?.f === "function"\<close>.  An \<^verbatim>\<open>undefined\<close> host is the record with no name and
  no callback.
\<close>

record host =
  name :: "string option"
  has_updateNode :: bool
  has_deleteNode :: bool
  has_insertNode :: bool
  has_exec :: bool

text \<open>A call the plugin makes on the host, with its argument.\<close>

datatype host_call =
    UpdateNode TableauEmbedNode
  | DeleteNode TableauEmbedNode
  | InsertNode TableauEmbedNode
  | Exec

text \<open>The object literal both handlers build from the picker's result.\<close>

definition node_of_picked :: "TableauParams \<Rightarrow> TableauEmbedNode" where
  "node_of_picked picked =
     \<lparr> type = PLUGIN_NAME,
       attrs = Some \<lparr> server = server picked, workbook = workbook picked, view = view picked,
                      width = width picked, height = height picked, toolbar = toolbar picked,
                      inline = Some (inline picked = Some True), label = label picked \<rparr>,
       children = [[]] \<rparr>"

text \<open>\<^verbatim>\<open>onClick\<close> of the toolbar button: the calls made on the host, or the rejection.\<close>

definition onClick :: "js \<Rightarrow> prompts \<Rightarrow> host \<Rightarrow> error + host_call list" where
  "onClick J pr rte =
     (case openTableauPicker J pr no_params of
        Inl e \<Rightarrow> Inl e
      | Inr None \<Rightarrow> Inr []
      | Inr (Some picked) \<Rightarrow>
          Inr (if has_insertNode rte then [InsertNode (node_of_picked picked)] else []))"

text \<open>The context of the \<^verbatim>\<open>exec\<close> handler: \<^verbatim>\<open>ctx?.element\<close> and the two callbacks it tests.\<close>

record ctx =
  element :: "TableauEmbedNode option"
  ctx_updateNode :: bool
  ctx_insertNode :: bool

definition attrs_or_empty :: "TableauEmbedNode \<Rightarrow> TableauParams" where
  "attrs_or_empty el = (case attrs el of Some a \<Rightarrow> a | None \<Rightarrow> no_params)"

definition exec_handler :: "js \<Rightarrow> prompts \<Rightarrow> ctx \<Rightarrow> error + host_call list" where
  "exec_handler J pr cx =
     (let current = element cx;
          defaults = (case current of Some n \<Rightarrow> attrs_or_empty n | None \<Rightarrow> no_params)
      in case openTableauPicker J pr defaults of
           Inl e \<Rightarrow> Inl e
         | Inr None \<Rightarrow> Inr []
         | Inr (Some picked) \<Rightarrow>
             (let updated = node_of_picked picked in
              Inr (case current of
                     Some n \<Rightarrow>
                       if type n = PLUGIN_NAME \<and> ctx_updateNode cx
                       then [UpdateNode (n\<lparr> type := type updated, attrs := attrs updated,
                                           children := children updated \<rparr>)]
                       else if ctx_insertNode cx then [InsertNode updated] else []
                   | None \<Rightarrow> if ctx_insertNode cx then [InsertNode updated] else [])))"

section \<open>The renderer\<close>

definition pluginName :: "host \<Rightarrow> string" where
  "pluginName rte = str_or (name rte) ''tableau_embed''"

text \<open>The destructuring defaults of the attributes.\<close>

definition widthAttr :: "TableauEmbedNode \<Rightarrow> numstr" where
  "widthAttr el = (case width (attrs_or_empty el) of Some w \<Rightarrow> w | None \<Rightarrow> WStr ''100%'')"

definition heightAttr :: "TableauEmbedNode \<Rightarrow> number" where
  "heightAttr el = (case height (attrs_or_empty el) of Some h \<Rightarrow> h | None \<Rightarrow> Num 520)"

definition toolbarAttr :: "TableauEmbedNode \<Rightarrow> ToolbarPos" where
  "toolbarAttr el = (case toolbar (attrs_or_empty el) of Some t \<Rightarrow> t | None \<Rightarrow> Bottom)"

text \<open>The string an \<^verbatim>\<open>undefined\<close> argument of \<^verbatim>\<open>encodeURIComponent\<close> is converted to.\<close>

fun js_string :: "string option \<Rightarrow> string" where
  "js_string None = ''undefined''"
| "js_string (Some s) = s"

text \<open>
  The \<^verbatim>\<open>src\<close> of the iframe.  With no \<^verbatim>\<open>server\<close> attribute, \<^verbatim>\<open>server.replace\<close> throws.
\<close>

definition iframe_src :: "TableauEmbedNode \<Rightarrow> error + string" where
  "iframe_src el =
     (case server (attrs_or_empty el) of
        None \<Rightarrow> Inl TypeError
      | Some srv \<Rightarrow>
          Inr (buildTableauUrl srv (js_string (workbook (attrs_or_empty el)))
                 (js_string (view (attrs_or_empty el))) (Some (toolbarAttr el))))"

text \<open>
  What \<^verbatim>\<open>TableauElement\<close> returns on its first render: the children alone for a node of
  another type, else the widget, of which the model keeps the iframe's \<^verbatim>\<open>src\<close> and its height
  in pixels.
\<close>

datatype rendered = Children "string list" | Embed string number

definition TableauElement :: "host \<Rightarrow> TableauEmbedNode \<Rightarrow> error + rendered" where
  "TableauElement rte el =
     (if type el \<noteq> pluginName rte then Inr (Children (children el))
      else case iframe_src el of
             Inl e \<Rightarrow> Inl e
           | Inr u \<Rightarrow> Inr (Embed u (num_or (num_or (heightAttr el) (Num 520)) (Num 520))))"

section \<open>The mounted widget as a state machine\<close>

text \<open>
  Every render of the component creates new function objects \<^verbatim>\<open>onDragMove\<close>,
  \<^verbatim>\<open>onDragEnd\<close>, \<^verbatim>\<open>persistSize\<close>, which close over the \<^verbatim>\<open>width\<close>, \<^verbatim>\<open>height\<close> and
  \<^verbatim>\<open>element\<close> of that render.  A \<open>closure\<close> is the functions of one render: \<open>rid\<close> numbers
  the render (two functions are the same object exactly when they come from the same
  render), the other fields are the values closed over.
\<close>

record closure =
  rid :: nat
  c_element :: TableauEmbedNode
  c_width :: numstr
  c_height :: number

text \<open>The object held by \<^verbatim>\<open>dragRef.current\<close>.\<close>

record drag =
  startX :: real
  startY :: real
  startW :: number
  startH :: number

datatype evtype = mousemove | mouseup

text \<open>
  The state of one widget, mounted on a node the renderer shows as a widget: the two
  \<^verbatim>\<open>useState\<close> cells, \<^verbatim>\<open>dragRef.current\<close>, the
  functions of the latest render (those the JSX attributes point to), the listeners the
  widget has on \<^verbatim>\<open>window\<close> in the order they were added, whether it is mounted, and the
  number of renders so far.  The first render has \<open>rid = 0\<close>; the cleanup of the
  \<^verbatim>\<open>useEffect\<close> with no dependencies closes over its functions.
\<close>

record component =
  width_state :: numstr
  height_state :: number
  dragRef :: "drag option"
  latest :: closure
  listeners :: "(evtype \<times> closure) list"
  mounted :: bool
  renders :: nat

definition mount :: "TableauEmbedNode \<Rightarrow> component" where
  "mount el =
     \<lparr> width_state = widthAttr el,
       height_state = num_or (heightAttr el) (Num 520),
       dragRef = None,
       latest = \<lparr> rid = 0, c_element = el, c_width = widthAttr el,
                  c_height = num_or (heightAttr el) (Num 520) \<rparr>,
       listeners = [],
       mounted = True,
       renders = 1 \<rparr>"

text \<open>
  \<^verbatim>\<open>window.addEventListener\<close> does not add a function twice for one event type;
  \<^verbatim>\<open>window.removeEventListener\<close> removes the function it is given and no other.
\<close>

definition attached :: "evtype \<Rightarrow> nat \<Rightarrow> (evtype \<times> closure) list \<Rightarrow> bool" where
  "attached t r ls = (filter (\<lambda>l. fst l = t \<and> rid (snd l) = r) ls \<noteq> [])"

definition addEventListener ::
  "evtype \<Rightarrow> closure \<Rightarrow> (evtype \<times> closure) list \<Rightarrow> (evtype \<times> closure) list" where
  "addEventListener t c ls = (if attached t (rid c) ls then ls else ls @ [(t, c)])"

definition removeEventListener ::
  "evtype \<Rightarrow> nat \<Rightarrow> (evtype \<times> closure) list \<Rightarrow> (evtype \<times> closure) list" where
  "removeEventListener t r ls = filter (\<lambda>l. \<not> (fst l = t \<and> rid (snd l) = r)) ls"

text \<open>\<^verbatim>\<open>persistSize\<close> of the render \<open>c\<close>: the new state and the calls on the host.\<close>

definition persistSize ::
  "host \<Rightarrow> closure \<Rightarrow> numstr \<Rightarrow> number \<Rightarrow> component \<Rightarrow> component \<times> host_call list" where
  "persistSize rte c w h s =
     (s\<lparr> width_state := w, height_state := h \<rparr>,
      if has_updateNode rte
      then [UpdateNode ((c_element c)
              \<lparr> attrs := Some ((attrs_or_empty (c_element c))
                                 \<lparr> width := Some w, height := Some h \<rparr>) \<rparr>)]
      else [])"

text \<open>
  \<^verbatim>\<open>onDragStart\<close>; \<open>m\<close> is the width \<^verbatim>\<open>getBoundingClientRect\<close> measures for the container,
  \<open>None\<close> when \<^verbatim>\<open>containerRef.current\<close> is \<^verbatim>\<open>null\<close>.
\<close>

definition onDragStart :: "closure \<Rightarrow> real \<Rightarrow> real \<Rightarrow> real option \<Rightarrow> component \<Rightarrow> component" where
  "onDragStart c x y m s =
     (let sw = (case c_width c of WNum n \<Rightarrow> n
                | WStr p \<Rightarrow> Num (case m of Some r \<Rightarrow> r | None \<Rightarrow> 0))
      in s\<lparr> dragRef := Some \<lparr> startX = x, startY = y, startW = sw, startH = c_height c \<rparr>,
            listeners := addEventListener mouseup c
                           (addEventListener mousemove c (listeners s)) \<rparr>)"

definition onDragMove :: "real \<Rightarrow> real \<Rightarrow> component \<Rightarrow> component" where
  "onDragMove x y s =
     (case dragRef s of
        None \<Rightarrow> s
      | Some d \<Rightarrow>
          (let dx = x - startX d;
               dy = y - startY d;
               nextW = Math_max 240 (Math_round (num_add (startW d) dx));
               nextH = Math_max 200 (Math_round (num_add (startH d) dy))
           in s\<lparr> width_state := WNum nextW, height_state := nextH \<rparr>))"

definition onDragEnd ::
  "host \<Rightarrow> closure \<Rightarrow> real option \<Rightarrow> component \<Rightarrow> component \<times> host_call list" where
  "onDragEnd rte c m s =
     (case dragRef s of
        None \<Rightarrow> (s, [])
      | Some d \<Rightarrow>
          (let finalW = (case c_width c of WNum n \<Rightarrow> WNum (Math_max 240 n)
                         | WStr p \<Rightarrow> WNum (Num (case m of Some r \<Rightarrow> r | None \<Rightarrow> 520)));
               finalH = Math_max 200 (c_height c);
               (s1, calls) = persistSize rte c finalW finalH s
           in (s1\<lparr> dragRef := None,
                    listeners := removeEventListener mouseup (rid c)
                                   (removeEventListener mousemove (rid c) (listeners s1)) \<rparr>,
               calls)))"

text \<open>
  A \<^verbatim>\<open>mousemove\<close> or \<^verbatim>\<open>mouseup\<close> on \<^verbatim>\<open>window\<close> runs the listeners of that type that were
  attached when the event began, in order, leaving out one that an earlier listener has
  removed.
\<close>

fun fire_mousemove :: "real \<Rightarrow> real \<Rightarrow> (evtype \<times> closure) list \<Rightarrow> component \<Rightarrow> component" where
  "fire_mousemove x y [] s = s"
| "fire_mousemove x y (l # ls) s =
     (if fst l = mousemove \<and> attached mousemove (rid (snd l)) (listeners s)
      then fire_mousemove x y ls (onDragMove x y s)
      else fire_mousemove x y ls s)"

fun fire_mouseup ::
  "host \<Rightarrow> real option \<Rightarrow> (evtype \<times> closure) list \<Rightarrow> component
     \<Rightarrow> component \<times> host_call list" where
  "fire_mouseup rte m [] s = (s, [])"
| "fire_mouseup rte m (l # ls) s =
     (if fst l = mouseup \<and> attached mouseup (rid (snd l)) (listeners s)
      then (let (s1, k1) = onDragEnd rte (snd l) m s;
                (s2, k2) = fire_mouseup rte m ls s1
            in (s2, k1 @ k2))
      else fire_mouseup rte m ls s)"

text \<open>The heights of the three preset buttons.\<close>

definition height_presets :: "real list" where
  "height_presets = [400, 520, 680]"

text \<open>
  What can happen to a mounted widget.  \<open>Rerender el\<close>: React calls the component again,
  with the element \<open>el\<close>.  \<open>MouseDown x y m\<close>: the button goes down on the handle.
  \<open>MouseMove\<close>, \<open>MouseUp\<close>: the events of \<^verbatim>\<open>window\<close>.  \<open>WidthChange v\<close>, \<open>HeightChange v\<close>:
  the text of a field becomes \<open>v\<close>.  \<open>WidthBlur\<close>, \<open>HeightBlur\<close>: a field loses the focus.
  \<open>FitWidth\<close>, \<open>HeightPreset h\<close>, \<open>Edit\<close>, \<open>Remove\<close>: a button is clicked.  \<open>Unmount\<close>: React
  removes the component and runs the cleanup of its effect.
\<close>

datatype event =
    Rerender TableauEmbedNode
  | MouseDown real real "real option"
  | MouseMove real real
  | MouseUp "real option"
  | WidthChange string
  | WidthBlur
  | HeightChange string
  | HeightBlur
  | FitWidth
  | HeightPreset real
  | Edit
  | Remove
  | Unmount

text \<open>
  One event.  The handlers of the JSX attributes are those of the latest render and exist
  only while the widget is mounted; the listeners of \<^verbatim>\<open>window\<close> run whenever they are
  attached.  When React renders again after a change of state is left open: \<open>Rerender\<close> is
  an event of its own, so every schedule of renders is a run of the machine.
\<close>

fun step :: "js \<Rightarrow> host \<Rightarrow> event \<Rightarrow> component \<Rightarrow> component \<times> host_call list" where
  "step J rte (Rerender el) s =
     (if mounted s
      then (s\<lparr> latest := \<lparr> rid = renders s, c_element = el, c_width = width_state s,
                            c_height = height_state s \<rparr>,
               renders := Suc (renders s) \<rparr>, [])
      else (s, []))"
| "step J rte (MouseDown x y m) s =
     (if mounted s then (onDragStart (latest s) x y m s, []) else (s, []))"
| "step J rte (MouseMove x y) s = (fire_mousemove x y (listeners s) s, [])"
| "step J rte (MouseUp m) s = fire_mouseup rte m (listeners s) s"
| "step J rte (WidthChange raw) s =
     (if mounted s then
        (let v = trim J raw in
         if ends_with_percent v then (s\<lparr> width_state := WStr v \<rparr>, [])
         else (case Number_str J v of
                 NaN \<Rightarrow> (s, [])
               | Num r \<Rightarrow> (s\<lparr> width_state := WNum (Num r) \<rparr>, [])))
      else (s, []))"
| "step J rte WidthBlur s =
     (if mounted s then
        persistSize rte (latest s)
          (case c_width (latest s) of
             WNum n \<Rightarrow> WNum (Math_max 240 (Math_round n))
           | WStr p \<Rightarrow> if p = [] then WStr ''100%'' else WStr p)
          (c_height (latest s)) s
      else (s, []))"
| "step J rte (HeightChange raw) s =
     (if mounted s then (s\<lparr> height_state := num_or (Number_str J raw) (Num 520) \<rparr>, [])
      else (s, []))"
| "step J rte HeightBlur s =
     (if mounted s then
        persistSize rte (latest s) (c_width (latest s)) (Math_max 200 (c_height (latest s))) s
      else (s, []))"
| "step J rte FitWidth s =
     (if mounted s then persistSize rte (latest s) (WStr ''100%'') (c_height (latest s)) s
      else (s, []))"
| "step J rte (HeightPreset h) s =
     (if mounted s \<and> h \<in> set height_presets
      then persistSize rte (latest s) (c_width (latest s)) (Num h) s
      else (s, []))"
| "step J rte Edit s = (s, if mounted s \<and> has_exec rte then [Exec] else [])"
| "step J rte Remove s =
     (s, if mounted s \<and> has_deleteNode rte then [DeleteNode (c_element (latest s))] else [])"
| "step J rte Unmount s =
     (if mounted s
      then (s\<lparr> mounted := False,
               listeners := removeEventListener mouseup 0
                              (removeEventListener mousemove 0 (listeners s)) \<rparr>, [])
      else (s, []))"

text \<open>A sequence of events, with all the calls made on the host.\<close>

fun run :: "js \<Rightarrow> host \<Rightarrow> event list \<Rightarrow> component \<Rightarrow> component \<times> host_call list" where
  "run J rte [] s = (s, [])"
| "run J rte (e # es) s =
     (let (s1, k1) = step J rte e s;
          (s2, k2) = run J rte es s1
      in (s2, k1 @ k2))"

text \<open>The states a widget mounted on the element \<open>el\<close> can reach.\<close>

inductive reachable :: "js \<Rightarrow> host \<Rightarrow> TableauEmbedNode \<Rightarrow> component \<Rightarrow> bool"
  for J :: js and rte :: host and el :: TableauEmbedNode where
  reach_mount: "reachable J rte el (mount el)"
| reach_step: "reachable J rte el s \<Longrightarrow> reachable J rte el (fst (step J rte e s))"

section \<open>A fragment of the built-ins, for concrete inputs\<close>

text \<open>
  \<^verbatim>\<open>Number\<close> on the strings \<^verbatim>\<open>digits\<close> and \<^verbatim>\<open>digits.digits\<close> and on the empty string, and
  \<^verbatim>\<open>trim\<close> on ASCII white space.  Other numeric literals (a sign, an exponent, surrounding
  space, hexadecimal) are outside the fragment, which reads them as \<open>NaN\<close>; it is used only to
  run the model on concrete strings inside the fragment.
\<close>

definition digit :: "char \<Rightarrow> nat option" where
  "digit c = (let n = (of_char c :: nat) in if 48 \<le> n \<and> n \<le> 57 then Some (n - 48) else None)"

fun digits_value :: "string \<Rightarrow> nat \<Rightarrow> nat option" where
  "digits_value [] acc = Some acc"
| "digits_value (c # cs) acc =
     (case digit c of None \<Rightarrow> None | Some d \<Rightarrow> digits_value cs (10 * acc + d))"

definition Number_fragment :: "string \<Rightarrow> number" where
  "Number_fragment s =
     (if s = [] then Num 0 else
      let ip = takeWhile (\<lambda>c. c \<noteq> CHR ''.'') s;
          rest = dropWhile (\<lambda>c. c \<noteq> CHR ''.'') s
      in if ip = [] then NaN else
         case digits_value ip 0 of
           None \<Rightarrow> NaN
         | Some i \<Rightarrow>
             (case rest of
                [] \<Rightarrow> Num (real i)
              | d # fp \<Rightarrow>
                  if fp = [] then NaN else
                  (case digits_value fp 0 of
                     None \<Rightarrow> NaN
                   | Some f \<Rightarrow> Num (real i + real f / 10 ^ length fp))))"

definition is_space :: "char \<Rightarrow> bool" where
  "is_space c = (c \<in> set [CHR 0x20, CHR 0x09, CHR 0x0A, CHR 0x0B, CHR 0x0C, CHR 0x0D])"

definition trim_fragment :: "string \<Rightarrow> string" where
  "trim_fragment s = rev (dropWhile is_space (rev (dropWhile is_space s)))"

definition js_fragment :: js where
  "js_fragment = \<lparr> Number_str = Number_fragment, trim = trim_fragment \<rparr>"

section \<open>Notions used in the statements\<close>

text \<open>The part of a built URL after the server.\<close>

definition url_tail :: "string \<Rightarrow> string \<Rightarrow> ToolbarPos option \<Rightarrow> string" where
  "url_tail wb vw tb =
     ''/views/'' @ encodeURIComponent wb @ ''/'' @ encodeURIComponent vw
       @ ''?:embed=y&:showVizHome=no''
       @ (case tb of None \<Rightarrow> [] | Some t \<Rightarrow> ''&:toolbar='' @ ToolbarPos_str t)"

text \<open>The number of places of a string at which a pattern begins.\<close>

fun is_prefix :: "string \<Rightarrow> string \<Rightarrow> bool" where
  "is_prefix [] ys = True"
| "is_prefix (x # xs) [] = False"
| "is_prefix (x # xs) (y # ys) = (x = y \<and> is_prefix xs ys)"

fun occurrences :: "string \<Rightarrow> string \<Rightarrow> nat" where
  "occurrences p [] = (if p = [] then 1 else 0)"
| "occurrences p (c # cs) = (if is_prefix p (c # cs) then 1 else 0) + occurrences p cs"

text \<open>The defaults the \<^verbatim>\<open>exec\<close> handler gives the picker: \<^verbatim>\<open>current?.attrs || {}\<close>.\<close>

definition picker_defaults :: "ctx \<Rightarrow> TableauParams" where
  "picker_defaults cx = (case element cx of Some n \<Rightarrow> attrs_or_empty n | None \<Rightarrow> no_params)"

text \<open>No height the widget holds is \<open>NaN\<close>: an invariant of the machine.\<close>

definition heights_numeric :: "component \<Rightarrow> bool" where
  "heights_numeric s =
     (height_state s \<noteq> NaN \<and> c_height (latest s) \<noteq> NaN
      \<and> (case dragRef s of None \<Rightarrow> True | Some d \<Rightarrow> startH d \<noteq> NaN)
      \<and> list_all (\<lambda>l. c_height (snd l) \<noteq> NaN) (listeners s))"

text \<open>
  What may happen between the button going down and going up in a drag: pointer moves,
  and renders (each move changes the state, so React renders again).
\<close>

fun drag_mid :: "event \<Rightarrow> bool" where
  "drag_mid (MouseMove x y) = True"
| "drag_mid (Rerender el) = True"
| "drag_mid e = False"

text \<open>A drag begun by the functions of the render \<open>c\<close> is under way.\<close>

definition dragging :: "closure \<Rightarrow> component \<Rightarrow> bool" where
  "dragging c s = (listeners s = [(mousemove, c), (mouseup, c)] \<and> dragRef s \<noteq> None)"

section \<open>Concrete inputs\<close>

definition no_answers :: prompts where
  "no_answers = \<lparr> choiceRaw = None, serverIn = None, workbookIn = None, viewIn = None,
     widthIn = None, heightIn = None, toolbarIn = None, inlineIn = None \<rparr>"

text \<open>The user picks the first preset; the user types 1.5; the user fills in the custom flow.\<close>

definition answers_preset1 :: prompts where
  "answers_preset1 = no_answers\<lparr> choiceRaw := Some ''1'' \<rparr>"

definition answers_fraction :: prompts where
  "answers_fraction = no_answers\<lparr> choiceRaw := Some ''1.5'' \<rparr>"

definition answers_small :: prompts where
  "answers_small = \<lparr> choiceRaw = Some ''6'', serverIn = Some ''https://public.tableau.com'',
     workbookIn = Some ''Superstore_116'', viewIn = Some ''Overview'',
     widthIn = Some ''100'', heightIn = Some ''50'', toolbarIn = None, inlineIn = None \<rparr>"

definition superstore_params :: TableauParams where
  "superstore_params =
     \<lparr> server = Some ''https://public.tableau.com'', workbook = Some ''Superstore_116'',
       view = Some ''Overview'', width = Some (WStr ''100%''), height = Some (Num 520),
       toolbar = Some Bottom, inline = Some False,
       label = Some (''Superstore '' @ en_dash @ '' Overview'') \<rparr>"

definition superstore_node :: TableauEmbedNode where
  "superstore_node = \<lparr> type = ''tableau_embed'', attrs = Some superstore_params, children = [[]] \<rparr>"

text \<open>The same node with a width in pixels.\<close>

definition pixel_node :: TableauEmbedNode where
  "pixel_node = superstore_node\<lparr> attrs := Some (superstore_params\<lparr> width := Some (WNum (Num 300)) \<rparr>) \<rparr>"

definition small_params :: TableauParams where
  "small_params =
     \<lparr> server = Some ''https://public.tableau.com'', workbook = Some ''Superstore_116'',
       view = Some ''Overview'', width = Some (WNum (Num 100)), height = Some (Num 50),
       toolbar = Some Bottom, inline = Some False,
       label = Some ''Superstore_116/Overview'' \<rparr>"

definition small_node :: TableauEmbedNode where
  "small_node = \<lparr> type = ''tableau_embed'', attrs = Some small_params, children = [[]] \<rparr>"

text \<open>The same node with the height 680, and with the height 0.\<close>

definition tall_node :: TableauEmbedNode where
  "tall_node = superstore_node\<lparr> attrs := Some (superstore_params\<lparr> height := Some (Num 680) \<rparr>) \<rparr>"

definition zero_node :: TableauEmbedNode where
  "zero_node = superstore_node\<lparr> attrs := Some (superstore_params\<lparr> height := Some (Num 0) \<rparr>) \<rparr>"



definition host_full :: host where
  "host_full = \<lparr> name = None, has_updateNode = True, has_deleteNode = True,
     has_insertNode = True, has_exec = True \<rparr>"

text \<open>A host with no callback, and a node of another type.\<close>

definition host_none :: host where
  "host_none = \<lparr> name = None, has_updateNode = False, has_deleteNode = False,
     has_insertNode = False, has_exec = False \<rparr>"

definition paragraph_node :: TableauEmbedNode where
  "paragraph_node = \<lparr> type = ''paragraph'', attrs = None, children = [''hello''] \<rparr>"


definition empty_ctx :: ctx where
  "empty_ctx = \<lparr> element = None, ctx_updateNode = True, ctx_insertNode = True \<rparr>"

section \<open>The URL builder: properties\<close>

lemma replace_trailing_slash_eq:
  "replace_trailing_slash s = (if s \<noteq> [] \<and> last s = CHR ''/'' then butlast s else s)"
proof (cases s rule: rev_cases)
  case Nil
  then show ?thesis by (simp add: replace_trailing_slash_def)
next
  case (snoc ys y)
  then show ?thesis by (simp add: replace_trailing_slash_def)
qed

lemma hex_digit_not_amp: "hex_digit n \<noteq> CHR ''&''"
proof -
  have "hex_digit n \<in> set ''0123456789ABCDEF''"
    unfolding hex_digit_def by (rule nth_mem) simp
  then show ?thesis by auto
qed

lemma amp_reserved: "\<not> unreserved (CHR ''&'')"
  by (simp add: unreserved_def)

lemma encode_char_no_amp:
  "CHR ''&'' \<notin> set (if unreserved c then [c] else percent_byte c)"
proof (cases "unreserved c")
  case True
  then have "c \<noteq> CHR ''&''" using amp_reserved by auto
  with True show ?thesis by simp
next
  case False
  then show ?thesis
    using hex_digit_not_amp[of "of_char c div 16"] hex_digit_not_amp[of "of_char c"]
    by (auto simp: percent_byte_def)
qed

lemma encode_no_amp: "CHR ''&'' \<notin> set (encodeURIComponent s)"
  unfolding encodeURIComponent_def using encode_char_no_amp by (induction s) auto

lemma occurrences_skip:
  "a \<notin> set xs \<Longrightarrow> occurrences (a # p) (xs @ ys) = occurrences (a # p) ys"
  by (induction xs) auto

lemma url_tail_hidden_once:
  "occurrences ''&:toolbar=hidden'' (url_tail wb vw (Some Hidden)) = 1"
proof -
  have 1: "occurrences ''&:toolbar=hidden'' (''/views/'' @ R)
             = occurrences ''&:toolbar=hidden'' R" for R
    by simp
  have 2: "occurrences ''&:toolbar=hidden'' (encodeURIComponent x @ R)
             = occurrences ''&:toolbar=hidden'' R" for x R
    using occurrences_skip[OF encode_no_amp] by simp
  have 3: "occurrences ''&:toolbar=hidden'' (''/'' @ R) = occurrences ''&:toolbar=hidden'' R" for R
    by simp
  have 4: "occurrences ''&:toolbar=hidden'' ''?:embed=y&:showVizHome=no&:toolbar=hidden'' = 1"
    by simp
  have "url_tail wb vw (Some Hidden)
          = ''/views/'' @ (encodeURIComponent wb @ (''/'' @ (encodeURIComponent vw
              @ ''?:embed=y&:showVizHome=no&:toolbar=hidden'')))"
    by (simp add: url_tail_def)
  then show ?thesis by (simp only: 1 2 3 4)
qed

lemma url_tail_none_no_toolbar:
  "occurrences ''&:toolbar='' (url_tail wb vw None) = 0"
proof -
  have a: "occurrences ''&:toolbar='' (''/views/'' @ R) = occurrences ''&:toolbar='' R" for R
    by simp
  have b: "occurrences ''&:toolbar='' (encodeURIComponent x @ R)
             = occurrences ''&:toolbar='' R" for x R
    using occurrences_skip[OF encode_no_amp] by simp
  have c: "occurrences ''&:toolbar='' (''/'' @ R) = occurrences ''&:toolbar='' R" for R
    by simp
  have d: "occurrences ''&:toolbar='' ''?:embed=y&:showVizHome=no'' = 0"
    by simp
  have "url_tail wb vw None
          = ''/views/'' @ (encodeURIComponent wb @ (''/'' @ (encodeURIComponent vw
              @ ''?:embed=y&:showVizHome=no'')))"
    by (simp add: url_tail_def)
  then show ?thesis by (simp only: a b c d)
qed

text \<open>
  C5.  \<^verbatim>\<open>buildTableauUrl\<close> at the server \<^verbatim>\<open>https://public.tableau.com/\<close>, the workbook
  \<^verbatim>\<open>Superstore_116\<close>, the view \<^verbatim>\<open>Overview\<close> and no toolbar is exactly
  \<^verbatim>\<open>https://public.tableau.com/views/Superstore_116/Overview?:embed=y&:showVizHome=no\<close>.
\<close>

theorem buildTableauUrl_superstore:
  "buildTableauUrl ''https://public.tableau.com/'' ''Superstore_116'' ''Overview'' None
     = ''https://public.tableau.com/views/Superstore_116/Overview?:embed=y&:showVizHome=no''"
  by (simp add: buildTableauUrl_def replace_trailing_slash_def encodeURIComponent_def
      unreserved_def)

text \<open>
  C4, amended.  For every server, workbook, view and optional toolbar the URL is the server
  without one trailing slash, then \<^verbatim>\<open>/views/\<close>, the percent-encoded workbook, a slash, the
  percent-encoded view and the query \<^verbatim>\<open>?:embed=y&:showVizHome=no\<close> (the flag reads
  \<^verbatim>\<open>:embed=y\<close>, not \<^verbatim>\<open>embed=yes\<close>), with \<^verbatim>\<open>&:toolbar=\<close> and the mode after it only when a
  toolbar is given.  With \<^verbatim>\<open>hidden\<close> the URL is the one without a toolbar followed by
  \<^verbatim>\<open>&:toolbar=hidden\<close>, which begins at exactly one place after the server; with no toolbar,
  \<^verbatim>\<open>&:toolbar=\<close> begins nowhere after the server.
\<close>

theorem buildTableauUrl_shape:
  "buildTableauUrl srv wb vw tb
     = (if srv \<noteq> [] \<and> last srv = CHR ''/'' then butlast srv else srv)
         @ ''/views/'' @ encodeURIComponent wb @ ''/'' @ encodeURIComponent vw
         @ ''?:embed=y&:showVizHome=no''
         @ (case tb of None \<Rightarrow> [] | Some t \<Rightarrow> ''&:toolbar='' @ ToolbarPos_str t)
   \<and> buildTableauUrl srv wb vw tb
       = (if srv \<noteq> [] \<and> last srv = CHR ''/'' then butlast srv else srv) @ url_tail wb vw tb
   \<and> buildTableauUrl srv wb vw (Some Hidden)
       = buildTableauUrl srv wb vw None @ ''&:toolbar=hidden''
   \<and> occurrences ''&:toolbar=hidden'' (url_tail wb vw (Some Hidden)) = 1
   \<and> occurrences ''&:toolbar='' (url_tail wb vw None) = 0"
proof -
  have shape: "buildTableauUrl srv wb vw tb
     = (if srv \<noteq> [] \<and> last srv = CHR ''/'' then butlast srv else srv) @ url_tail wb vw tb"
    by (simp add: buildTableauUrl_def url_tail_def replace_trailing_slash_eq)
  have hid: "buildTableauUrl srv wb vw (Some Hidden)
               = buildTableauUrl srv wb vw None @ ''&:toolbar=hidden''"
    by (simp add: buildTableauUrl_def)
  show ?thesis
    using shape hid url_tail_hidden_once[of wb vw] url_tail_none_no_toolbar[of wb vw]
    by (simp add: url_tail_def)
qed

theorem buildTableauUrl_shape_witness:
  "buildTableauUrl ''https://example.org/t/'' ''Sales Q1'' ''A&B'' (Some Hidden)
     = ''https://example.org/t/views/Sales%20Q1/A%26B?:embed=y&:showVizHome=no&:toolbar=hidden''"
  using buildTableauUrl_shape[of "''https://example.org/t/''" "''Sales Q1''" "''A&B''" "Some Hidden"]
  by (simp add: encodeURIComponent_def unreserved_def percent_byte_def hex_digit_def)

theorem buildTableauUrl_embed_yes_counterexample:
  "occurrences ''embed=yes''
     (buildTableauUrl ''https://public.tableau.com/'' ''Superstore_116'' ''Overview'' None) = 0
   \<and> occurrences '':embed=y''
     (buildTableauUrl ''https://public.tableau.com/'' ''Superstore_116'' ''Overview'' None) = 1"
  by (simp add: buildTableauUrl_def replace_trailing_slash_def encodeURIComponent_def
      unreserved_def)

section \<open>The picker and the toolbar handlers: properties\<close>

lemma picker_preset1:
  "openTableauPicker js_fragment answers_preset1 no_params = Inr (Some superstore_params)"
  by (simp add: openTableauPicker_def answers_preset1_def no_answers_def js_fragment_def
      Number_fragment_def digit_def array_get_def PUBLIC_PRESETS_def no_params_def
      superstore_params_def)

lemma picker_custom_small: "picker_custom js_fragment answers_small = Some small_params"
  by (simp add: picker_custom_def answers_small_def js_fragment_def Number_fragment_def
      digit_def ends_with_percent_def toLowerCase_def lower_char_def num_or_def
      small_params_def Let_def)

lemma picker_small:
  "openTableauPicker js_fragment answers_small no_params = Inr (Some small_params)"
proof -
  have "Number_prompt js_fragment (choiceRaw answers_small) = Num 6"
    by (simp add: answers_small_def js_fragment_def Number_fragment_def digit_def)
  then show ?thesis
    using picker_custom_small by (simp add: openTableauPicker_def PUBLIC_PRESETS_def)
qed

text \<open>
  C1, amended.  When the \<^verbatim>\<open>exec\<close> handler runs on a node whose type is not
  \<^verbatim>\<open>tableau_embed\<close> (or on no node), it never calls \<^verbatim>\<open>updateNode\<close> or \<^verbatim>\<open>deleteNode\<close>; it
  calls \<^verbatim>\<open>insertNode\<close>, once and with the node built from the picker's result, exactly when
  the picker returns parameters and the context has an \<^verbatim>\<open>insertNode\<close> function.
\<close>

theorem exec_handler_other_type:
  assumes "map_option type (element cx) \<noteq> Some PLUGIN_NAME"
  shows "exec_handler J pr cx =
           (case openTableauPicker J pr (picker_defaults cx) of
              Inl e \<Rightarrow> Inl e
            | Inr None \<Rightarrow> Inr []
            | Inr (Some picked) \<Rightarrow>
                Inr (if ctx_insertNode cx then [InsertNode (node_of_picked picked)] else []))"
  using assms
  by (auto simp: exec_handler_def picker_defaults_def Let_def split: sum.splits option.splits)

theorem exec_handler_other_type_witness:
  "map_option type (element empty_ctx) \<noteq> Some PLUGIN_NAME
   \<and> exec_handler js_fragment answers_preset1 empty_ctx
       = Inr [InsertNode (node_of_picked superstore_params)]"
proof -
  have h: "map_option type (element empty_ctx) \<noteq> Some PLUGIN_NAME"
    by (simp add: empty_ctx_def)
  have d: "picker_defaults empty_ctx = no_params"
    by (simp add: picker_defaults_def empty_ctx_def)
  have i: "ctx_insertNode empty_ctx" by (simp add: empty_ctx_def)
  show ?thesis
    using h exec_handler_other_type[OF h, of js_fragment answers_preset1] picker_preset1 d i
    by simp
qed

theorem exec_handler_other_type_counterexample:
  "type \<lparr> type = ''paragraph'', attrs = None, children = [''hello''] \<rparr> \<noteq> PLUGIN_NAME
   \<and> exec_handler js_fragment answers_preset1
       \<lparr> element = Some \<lparr> type = ''paragraph'', attrs = None, children = [''hello''] \<rparr>,
         ctx_updateNode = True, ctx_insertNode = True \<rparr>
       = Inr [InsertNode
               \<lparr> type = ''tableau_embed'',
                 attrs = Some \<lparr> server = Some ''https://public.tableau.com'',
                                workbook = Some ''Superstore_116'', view = Some ''Overview'',
                                width = Some (WStr ''100%''), height = Some (Num 520),
                                toolbar = Some Bottom, inline = Some False,
                                label = Some (''Superstore '' @ en_dash @ '' Overview'') \<rparr>,
                 children = [[]] \<rparr>]"
  using picker_preset1
  by (simp add: exec_handler_def PLUGIN_NAME_def attrs_or_empty_def node_of_picked_def
      superstore_params_def)

text \<open>
  C6.  When the picker returns a parameter set \<open>P\<close> to the toolbar button and the host can
  insert, the button inserts the node built from \<open>P\<close>, and the renderer registered for the
  plugin's type renders that node as an iframe whose \<^verbatim>\<open>src\<close> is
  \<^verbatim>\<open>buildTableauUrl\<close> of the server, workbook, view and toolbar of \<open>P\<close>, all four of which
  \<open>P\<close> has.
\<close>

theorem insert_render_roundtrip:
  assumes "openTableauPicker J pr no_params = Inr (Some P)"
      and "has_insertNode rte"
      and "pluginName rte' = PLUGIN_NAME"
  shows "\<exists>srv wb vw tb h.
           server P = Some srv \<and> workbook P = Some wb \<and> view P = Some vw
         \<and> toolbar P = Some tb
         \<and> onClick J pr rte = Inr [InsertNode (node_of_picked P)]
         \<and> TableauElement rte' (node_of_picked P)
             = Inr (Embed (buildTableauUrl srv wb vw (Some tb)) h)"
proof -
  from assms(1) obtain srv wb vw tb where
    P: "server P = Some srv" "workbook P = Some wb" "view P = Some vw" "toolbar P = Some tb"
    by (auto simp: openTableauPicker_def picker_custom_def Let_def
        split: number.splits if_splits option.splits)
  have c: "onClick J pr rte = Inr [InsertNode (node_of_picked P)]"
    using assms(1,2) by (simp add: onClick_def)
  have "iframe_src (node_of_picked P) = Inr (buildTableauUrl srv wb vw (Some tb))"
    using P by (simp add: iframe_src_def node_of_picked_def attrs_or_empty_def toolbarAttr_def)
  then have "\<exists>h. TableauElement rte' (node_of_picked P)
                  = Inr (Embed (buildTableauUrl srv wb vw (Some tb)) h)"
    using assms(3) by (simp add: TableauElement_def node_of_picked_def)
  with P c show ?thesis by blast
qed

theorem insert_render_roundtrip_witness:
  "openTableauPicker js_fragment answers_small no_params = Inr (Some small_params)
   \<and> has_insertNode host_full
   \<and> pluginName host_full = PLUGIN_NAME
   \<and> onClick js_fragment answers_small host_full = Inr [InsertNode (node_of_picked small_params)]
   \<and> TableauElement host_full (node_of_picked small_params)
       = Inr (Embed ''https://public.tableau.com/views/Superstore_116/Overview?:embed=y&:showVizHome=no&:toolbar=bottom''
                (Num 50))"
proof -
  have a: "has_insertNode host_full" by (simp add: host_full_def)
  have b: "pluginName host_full = PLUGIN_NAME"
    by (simp add: pluginName_def host_full_def PLUGIN_NAME_def)
  from insert_render_roundtrip[OF picker_small a b]
  obtain srv wb vw tb h where
    r: "server small_params = Some srv" "workbook small_params = Some wb"
       "view small_params = Some vw" "toolbar small_params = Some tb"
       "onClick js_fragment answers_small host_full = Inr [InsertNode (node_of_picked small_params)]"
       "TableauElement host_full (node_of_picked small_params)
          = Inr (Embed (buildTableauUrl srv wb vw (Some tb)) h)"
    by blast
  have v: "srv = ''https://public.tableau.com''" "wb = ''Superstore_116''" "vw = ''Overview''"
          "tb = Bottom"
    using r(1-4) by (simp_all add: small_params_def)
  have u: "buildTableauUrl srv wb vw (Some tb)
             = ''https://public.tableau.com/views/Superstore_116/Overview?:embed=y&:showVizHome=no&:toolbar=bottom''"
    unfolding v
    by (simp add: buildTableauUrl_def replace_trailing_slash_def encodeURIComponent_def
        unreserved_def)
  have "h = Num 50"
    using r(6) b
    by (simp add: TableauElement_def node_of_picked_def iframe_src_def attrs_or_empty_def
        heightAttr_def small_params_def num_or_def PLUGIN_NAME_def split: sum.splits)
  then show ?thesis using picker_small a b r(5,6) u by simp
qed

text \<open>
  The one rejection of the toolbar button is the picker's own, whatever the host: at the
  answer \<^verbatim>\<open>1.5\<close> the picker reads \<^verbatim>\<open>PUBLIC_PRESETS[0.5]\<close>, which is \<^verbatim>\<open>undefined\<close>, before
  the handler reaches its test of \<^verbatim>\<open>insertNode\<close>.
\<close>

lemma picker_fraction_rejects: "onClick js_fragment answers_fraction rte = Inl TypeError"
  by (simp add: onClick_def openTableauPicker_def answers_fraction_def no_answers_def
      js_fragment_def Number_fragment_def digit_def array_get_def PUBLIC_PRESETS_def)

lemma onClick_error_is_pickers:
  "(onClick J pr rte = Inl e) = (openTableauPicker J pr no_params = Inl e)"
  by (auto simp: onClick_def split: sum.splits option.splits)

text \<open>
  C9.  A missing callback makes its operation do nothing, and no step of the model that
  tests a callback has an error result.  Without \<^verbatim>\<open>updateNode\<close> a size commit makes no call
  on the host and leaves the element and the listeners of the widget as they are; without
  \<^verbatim>\<open>deleteNode\<close> the Remove button, and without \<^verbatim>\<open>exec\<close> the Edit button, make no call and
  change nothing; without \<^verbatim>\<open>insertNode\<close> the toolbar button makes no call whatever the
  picker returns.  The toolbar button is rejected only when the picker itself is, which
  happens before the test of \<^verbatim>\<open>insertNode\<close> and with any host.
\<close>

theorem missing_capability_no_host_call:
  "(\<not> has_updateNode rte
      \<longrightarrow> snd (persistSize rte c w h s) = []
          \<and> latest (fst (persistSize rte c w h s)) = latest s
          \<and> listeners (fst (persistSize rte c w h s)) = listeners s)
   \<and> (\<not> has_deleteNode rte \<longrightarrow> step J rte Remove s = (s, []))
   \<and> (\<not> has_exec rte \<longrightarrow> step J rte Edit s = (s, []))
   \<and> (\<not> has_insertNode rte
        \<longrightarrow> (\<forall>r. openTableauPicker J pr no_params = Inr r \<longrightarrow> onClick J pr rte = Inr []))
   \<and> (\<forall>e rte'. (onClick J pr rte = Inl e) = (onClick J pr rte' = Inl e))"
proof -
  have i: "onClick J pr rte = Inr []"
    if "\<not> has_insertNode rte" and "openTableauPicker J pr no_params = Inr r" for r
    using that by (cases r) (simp_all add: onClick_def)
  have e: "(onClick J pr rte = Inl e) = (onClick J pr rte' = Inl e)" for e rte'
    by (simp add: onClick_error_is_pickers)
  show ?thesis using i e by (simp add: persistSize_def)
qed

theorem missing_capability_no_host_call_witness:
  "\<not> has_updateNode host_none \<and> \<not> has_deleteNode host_none \<and> \<not> has_exec host_none
   \<and> \<not> has_insertNode host_none
   \<and> snd (persistSize host_none (latest (mount superstore_node)) (WStr ''100%'') (Num 400)
            (mount superstore_node)) = []
   \<and> step js_fragment host_none Remove (mount superstore_node) = (mount superstore_node, [])
   \<and> step js_fragment host_none Edit (mount superstore_node) = (mount superstore_node, [])
   \<and> openTableauPicker js_fragment answers_preset1 no_params = Inr (Some superstore_params)
   \<and> onClick js_fragment answers_preset1 host_none = Inr []"
proof -
  have c: "\<not> has_updateNode host_none" "\<not> has_deleteNode host_none" "\<not> has_exec host_none"
    "\<not> has_insertNode host_none"
    by (simp_all add: host_none_def)
  note t = missing_capability_no_host_call[of host_none "latest (mount superstore_node)"
        "WStr ''100%''" "Num 400" "mount superstore_node" js_fragment answers_preset1]
  have o: "onClick js_fragment answers_preset1 host_none = Inr []"
    using t c(4) picker_preset1 by blast
  show ?thesis using c o t picker_preset1 by simp
qed

text \<open>
  A cancelled picker.  When a required answer of the custom flow (server, workbook or
  view) is cancelled or empty the picker returns \<^verbatim>\<open>null\<close>, and on \<^verbatim>\<open>null\<close> neither
  handler calls the host.
\<close>

theorem picker_cancel_aborts:
  "(str_or (serverIn pr) [] = [] \<or> str_or (workbookIn pr) [] = []
      \<or> str_or (viewIn pr) [] = [] \<longrightarrow> picker_custom J pr = None)
   \<and> (openTableauPicker J pr no_params = Inr None \<longrightarrow> onClick J pr rte = Inr [])
   \<and> (openTableauPicker J pr (picker_defaults cx) = Inr None
        \<longrightarrow> exec_handler J pr cx = Inr [])"
  by (auto simp: picker_custom_def onClick_def exec_handler_def picker_defaults_def Let_def)

theorem picker_cancel_aborts_witness:
  "str_or (serverIn no_answers) [] = []
   \<and> picker_custom js_fragment no_answers = None
   \<and> openTableauPicker js_fragment no_answers no_params = Inr None
   \<and> onClick js_fragment no_answers host_full = Inr []
   \<and> openTableauPicker js_fragment no_answers (picker_defaults empty_ctx) = Inr None
   \<and> exec_handler js_fragment no_answers empty_ctx = Inr []"
proof -
  have a: "str_or (serverIn no_answers) [] = []" by (simp add: no_answers_def)
  have b: "openTableauPicker js_fragment no_answers d = Inr (picker_custom js_fragment no_answers)"
    for d
    by (simp add: openTableauPicker_def no_answers_def)
  note t = picker_cancel_aborts[of no_answers js_fragment host_full empty_ctx]
  have c: "picker_custom js_fragment no_answers = None" using t a by blast
  show ?thesis using a b c t by simp
qed

text \<open>
  A node of another type.  The renderer returns the children of a node whose type is not
  the plugin's name, and nothing else.
\<close>

theorem TableauElement_other_type:
  "type el \<noteq> pluginName rte \<longrightarrow> TableauElement rte el = Inr (Children (children el))"
  by (simp add: TableauElement_def)

theorem TableauElement_other_type_witness:
  "type paragraph_node \<noteq> pluginName host_full
   \<and> TableauElement host_full paragraph_node = Inr (Children [''hello''])"
proof -
  have a: "type paragraph_node \<noteq> pluginName host_full"
    by (simp add: paragraph_node_def pluginName_def host_full_def)
  show ?thesis
    using a TableauElement_other_type[of paragraph_node host_full]
    by (simp add: paragraph_node_def)
qed

section \<open>Size commits: properties\<close>

text \<open>
  C10.  A size commit through \<^verbatim>\<open>persistSize\<close> on a host with \<^verbatim>\<open>updateNode\<close> makes one
  call, \<^verbatim>\<open>updateNode\<close>, with a node that has the type and the children of the element and
  its \<^verbatim>\<open>server\<close>, \<^verbatim>\<open>workbook\<close>, \<^verbatim>\<open>view\<close>, \<^verbatim>\<open>toolbar\<close>, \<^verbatim>\<open>inline\<close> and \<^verbatim>\<open>label\<close>; only
  \<^verbatim>\<open>width\<close> and \<^verbatim>\<open>height\<close> are set, to the two arguments.
\<close>

theorem persistSize_frame:
  assumes "has_updateNode rte"
  shows "\<exists>n. snd (persistSize rte c w h s) = [UpdateNode n]
           \<and> type n = type (c_element c)
           \<and> children n = children (c_element c)
           \<and> server (attrs_or_empty n) = server (attrs_or_empty (c_element c))
           \<and> workbook (attrs_or_empty n) = workbook (attrs_or_empty (c_element c))
           \<and> view (attrs_or_empty n) = view (attrs_or_empty (c_element c))
           \<and> toolbar (attrs_or_empty n) = toolbar (attrs_or_empty (c_element c))
           \<and> inline (attrs_or_empty n) = inline (attrs_or_empty (c_element c))
           \<and> label (attrs_or_empty n) = label (attrs_or_empty (c_element c))
           \<and> width (attrs_or_empty n) = Some w
           \<and> height (attrs_or_empty n) = Some h"
  using assms by (simp add: persistSize_def attrs_or_empty_def)

theorem persistSize_frame_witness:
  "has_updateNode host_full
   \<and> snd (persistSize host_full (latest (mount superstore_node)) (WNum (Num 300)) (Num 400)
            (mount superstore_node))
       = [UpdateNode
            \<lparr> type = ''tableau_embed'',
              attrs = Some \<lparr> server = Some ''https://public.tableau.com'',
                             workbook = Some ''Superstore_116'', view = Some ''Overview'',
                             width = Some (WNum (Num 300)), height = Some (Num 400),
                             toolbar = Some Bottom, inline = Some False,
                             label = Some (''Superstore '' @ en_dash @ '' Overview'') \<rparr>,
              children = [[]] \<rparr>]"
proof -
  have a: "has_updateNode host_full" by (simp add: host_full_def)
  show ?thesis
    using a persistSize_frame[OF a, of "latest (mount superstore_node)" "WNum (Num 300)"
        "Num 400" "mount superstore_node"]
    by (simp add: persistSize_def mount_def attrs_or_empty_def superstore_node_def
        superstore_params_def)
qed

text \<open>
  A widget mounted on a node whose height is a number other than 0 holds that height.
\<close>

lemma mount_height_in_sync:
  assumes "height (attrs_or_empty el) = Some (Num h)" and "h \<noteq> 0"
  shows "height (attrs_or_empty (c_element (latest (mount el)))) = Some (c_height (latest (mount el)))"
  using assms by (simp add: mount_def heightAttr_def num_or_def)

text \<open>
  C8, amended.  On a mounted widget whose host has \<^verbatim>\<open>updateNode\<close>, the Fit button is
  \<^verbatim>\<open>persistSize("100%", height)\<close>, the function the end of a drag commits through.  It
  makes exactly one call, \<^verbatim>\<open>updateNode\<close>, with the element of the latest render in which
  the width is \<^verbatim>\<open>"100%"\<close> and the height is the height of that render, every other field
  kept; the local width becomes \<^verbatim>\<open>"100%"\<close> and the local height the height of that
  render.  On a widget just mounted on a node whose height is a number other than 0, the
  node committed is the node with only its width replaced, and the local height is
  unchanged.
\<close>

theorem fit_width_commit:
  assumes "mounted s" and "has_updateNode rte"
  shows "step J rte FitWidth s
           = persistSize rte (latest s) (WStr ''100%'') (c_height (latest s)) s
       \<and> snd (step J rte FitWidth s)
           = [UpdateNode ((c_element (latest s))
                \<lparr> attrs := Some ((attrs_or_empty (c_element (latest s)))
                     \<lparr> width := Some (WStr ''100%''),
                       height := Some (c_height (latest s)) \<rparr>) \<rparr>)]
       \<and> width_state (fst (step J rte FitWidth s)) = WStr ''100%''
       \<and> height_state (fst (step J rte FitWidth s)) = c_height (latest s)
       \<and> (\<forall>h. attrs el = Some a \<and> height a = Some (Num h) \<and> h \<noteq> 0
              \<longrightarrow> snd (step J rte FitWidth (mount el))
                    = [UpdateNode (el\<lparr> attrs := Some (a\<lparr> width := Some (WStr ''100%'') \<rparr>) \<rparr>)]
                \<and> height_state (fst (step J rte FitWidth (mount el)))
                    = height_state (mount el))"
proof -
  have fresh: "snd (step J rte FitWidth (mount el))
                    = [UpdateNode (el\<lparr> attrs := Some (a\<lparr> width := Some (WStr ''100%'') \<rparr>) \<rparr>)]
                \<and> height_state (fst (step J rte FitWidth (mount el)))
                    = height_state (mount el)"
    if "attrs el = Some a \<and> height a = Some (Num h) \<and> h \<noteq> 0" for h
  proof -
    have "a\<lparr> width := Some (WStr ''100%''), height := Some (Num h) \<rparr>
            = a\<lparr> width := Some (WStr ''100%'') \<rparr>"
      using that by (cases a) simp
    then show ?thesis
      using that assms(2)
      by (simp add: persistSize_def mount_def heightAttr_def attrs_or_empty_def num_or_def)
  qed
  have main: "step J rte FitWidth s
           = persistSize rte (latest s) (WStr ''100%'') (c_height (latest s)) s
       \<and> snd (step J rte FitWidth s)
           = [UpdateNode ((c_element (latest s))
                \<lparr> attrs := Some ((attrs_or_empty (c_element (latest s)))
                     \<lparr> width := Some (WStr ''100%''),
                       height := Some (c_height (latest s)) \<rparr>) \<rparr>)]
       \<and> width_state (fst (step J rte FitWidth s)) = WStr ''100%''
       \<and> height_state (fst (step J rte FitWidth s)) = c_height (latest s)"
    using assms by (simp add: persistSize_def)
  show ?thesis using main fresh by blast
qed

theorem fit_width_commit_witness:
  "mounted (mount pixel_node) \<and> has_updateNode host_full
   \<and> attrs pixel_node = Some (superstore_params\<lparr> width := Some (WNum (Num 300)) \<rparr>)
   \<and> height (superstore_params\<lparr> width := Some (WNum (Num 300)) \<rparr>) = Some (Num 520)
   \<and> snd (step js_fragment host_full FitWidth (mount pixel_node))
       = [UpdateNode
            \<lparr> type = ''tableau_embed'',
              attrs = Some \<lparr> server = Some ''https://public.tableau.com'',
                             workbook = Some ''Superstore_116'', view = Some ''Overview'',
                             width = Some (WStr ''100%''), height = Some (Num 520),
                             toolbar = Some Bottom, inline = Some False,
                             label = Some (''Superstore '' @ en_dash @ '' Overview'') \<rparr>,
              children = [[]] \<rparr>]
   \<and> height_state (mount pixel_node) = Num 520
   \<and> height_state (fst (step js_fragment host_full FitWidth (mount pixel_node))) = Num 520"
proof -
  have a: "mounted (mount pixel_node)" by (simp add: mount_def)
  have b: "has_updateNode host_full" by (simp add: host_full_def)
  show ?thesis
    using a b fit_width_commit[OF a b, of js_fragment pixel_node
        "superstore_params\<lparr> width := Some (WNum (Num 300)) \<rparr>"]
    by (simp add: persistSize_def mount_def attrs_or_empty_def pixel_node_def
        superstore_node_def superstore_params_def heightAttr_def widthAttr_def num_or_def)
qed

text \<open>
  The widget keeps the height of its first render.  When the host renders it again with a
  node of height 680 (after an edit through the \<^verbatim>\<open>exec\<close> handler, say), the Fit button
  writes the old 520 over it; mounted on a node of height 0, the button writes 520.
\<close>

theorem fit_width_height_counterexample:
  "height (attrs_or_empty tall_node) = Some (Num 680)
   \<and> snd (run js_fragment host_full [Rerender tall_node, FitWidth] (mount superstore_node))
       = [UpdateNode (tall_node\<lparr> attrs := Some (superstore_params
             \<lparr> width := Some (WStr ''100%''), height := Some (Num 520) \<rparr>) \<rparr>)]
   \<and> height (attrs_or_empty zero_node) = Some (Num 0)
   \<and> snd (run js_fragment host_full [FitWidth] (mount zero_node))
       = [UpdateNode (zero_node\<lparr> attrs := Some (superstore_params
             \<lparr> width := Some (WStr ''100%''), height := Some (Num 520) \<rparr>) \<rparr>)]"
  by (simp add: mount_def persistSize_def widthAttr_def heightAttr_def attrs_or_empty_def
      tall_node_def zero_node_def superstore_node_def superstore_params_def num_or_def
      host_full_def)

section \<open>The widget: heights are never NaN\<close>

lemma num_or_numeric: "b \<noteq> NaN \<Longrightarrow> num_or a b \<noteq> NaN"
  by (cases a) (auto simp: num_or_def)

lemma Math_max_numeric: "n \<noteq> NaN \<Longrightarrow> Math_max a n \<noteq> NaN"
  by (cases n) auto

lemma Math_round_numeric: "n \<noteq> NaN \<Longrightarrow> Math_round n \<noteq> NaN"
  by (cases n) auto

lemma num_add_numeric: "n \<noteq> NaN \<Longrightarrow> num_add n d \<noteq> NaN"
  by (cases n) auto

lemma heights_numeric_mount: "heights_numeric (mount el)"
  by (simp add: heights_numeric_def mount_def num_or_numeric)

lemma heights_numeric_persistSize:
  "heights_numeric s \<Longrightarrow> h \<noteq> NaN \<Longrightarrow> heights_numeric (fst (persistSize rte c w h s))"
  by (simp add: heights_numeric_def persistSize_def)

lemma heights_numeric_onDragStart:
  "heights_numeric s \<Longrightarrow> c_height c \<noteq> NaN \<Longrightarrow> heights_numeric (onDragStart c x y m s)"
  by (simp add: heights_numeric_def onDragStart_def addEventListener_def Let_def)

lemma heights_numeric_onDragMove:
  "heights_numeric s \<Longrightarrow> heights_numeric (onDragMove x y s)"
  by (auto simp: heights_numeric_def onDragMove_def Let_def Math_max_numeric Math_round_numeric
      num_add_numeric split: option.splits)

lemma list_all_filter: "list_all P xs \<Longrightarrow> list_all P (filter Q xs)"
  by (induction xs) auto

lemma heights_numeric_onDragEnd:
  "heights_numeric s \<Longrightarrow> c_height c \<noteq> NaN \<Longrightarrow> heights_numeric (fst (onDragEnd rte c m s))"
  by (auto simp: heights_numeric_def onDragEnd_def persistSize_def removeEventListener_def Let_def
      Math_max_numeric list_all_filter split: option.splits)

lemma heights_numeric_fire_mousemove:
  "heights_numeric s \<Longrightarrow> heights_numeric (fire_mousemove x y ls s)"
  by (induction ls arbitrary: s) (auto simp: heights_numeric_onDragMove)

lemma heights_numeric_fire_mouseup:
  "heights_numeric s \<Longrightarrow> list_all (\<lambda>l. c_height (snd l) \<noteq> NaN) ls
     \<Longrightarrow> heights_numeric (fst (fire_mouseup rte m ls s))"
proof (induction ls arbitrary: s)
  case Nil
  then show ?case by simp
next
  case (Cons l ls)
  show ?case
  proof (cases "fst l = mouseup \<and> attached mouseup (rid (snd l)) (listeners s)")
    case True
    obtain s1 k1 where e: "onDragEnd rte (snd l) m s = (s1, k1)"
      by (cases "onDragEnd rte (snd l) m s")
    have "heights_numeric s1"
      using heights_numeric_onDragEnd[of s "snd l" rte m] Cons.prems e by simp
    then have "heights_numeric (fst (fire_mouseup rte m ls s1))"
      using Cons.IH Cons.prems by simp
    then show ?thesis using True e by (simp add: split_beta)
  next
    case False
    then show ?thesis using Cons by auto
  qed
qed

lemma heights_numeric_step:
  assumes "heights_numeric s"
  shows "heights_numeric (fst (step J rte e s))"
proof (cases e)
  case (Rerender el)
  then show ?thesis using assms by (simp add: heights_numeric_def)
next
  case (MouseDown x y m)
  then show ?thesis using assms heights_numeric_onDragStart[of s "latest s"]
    by (simp add: heights_numeric_def)
next
  case (MouseMove x y)
  then show ?thesis using assms by (simp add: heights_numeric_fire_mousemove)
next
  case (MouseUp m)
  then show ?thesis using assms heights_numeric_fire_mouseup[of s "listeners s"]
    by (simp add: heights_numeric_def)
next
  case (WidthChange raw)
  then show ?thesis using assms
    by (auto simp: heights_numeric_def Let_def split: number.splits)
next
  case WidthBlur
  then show ?thesis using assms heights_numeric_persistSize[of s "c_height (latest s)"]
    by (simp add: heights_numeric_def)
next
  case (HeightChange raw)
  then show ?thesis using assms by (simp add: heights_numeric_def num_or_numeric)
next
  case HeightBlur
  then show ?thesis
    using assms heights_numeric_persistSize[of s "Math_max 200 (c_height (latest s))"]
    by (simp add: heights_numeric_def Math_max_numeric)
next
  case FitWidth
  then show ?thesis using assms heights_numeric_persistSize[of s "c_height (latest s)"]
    by (simp add: heights_numeric_def)
next
  case (HeightPreset h)
  then show ?thesis using assms heights_numeric_persistSize[of s "Num h"]
    by simp
next
  case Edit
  then show ?thesis using assms by simp
next
  case Remove
  then show ?thesis using assms by simp
next
  case Unmount
  then show ?thesis using assms
    by (simp add: heights_numeric_def removeEventListener_def list_all_filter)
qed

lemma reachable_heights_numeric: "reachable J rte el s \<Longrightarrow> heights_numeric s"
  by (induction rule: reachable.induct) (auto simp: heights_numeric_mount heights_numeric_step)

lemma onDragEnd_calls_height:
  assumes "c_height c \<noteq> NaN" and "UpdateNode n \<in> set (snd (onDragEnd rte c m s))"
  shows "\<exists>h. height (attrs_or_empty n) = Some (Num h) \<and> 200 \<le> h"
proof -
  from assms(1) obtain h0 where h0: "c_height c = Num h0" by (cases "c_height c") auto
  from assms(2) have "height (attrs_or_empty n) = Some (Num (max 200 h0))"
    by (auto simp: onDragEnd_def persistSize_def attrs_or_empty_def h0 Let_def
        split: option.splits if_splits)
  then show ?thesis by simp
qed

lemma fire_mouseup_calls_height:
  "heights_numeric s \<Longrightarrow> list_all (\<lambda>l. c_height (snd l) \<noteq> NaN) ls
     \<Longrightarrow> UpdateNode n \<in> set (snd (fire_mouseup rte m ls s))
     \<Longrightarrow> \<exists>h. height (attrs_or_empty n) = Some (Num h) \<and> 200 \<le> h"
proof (induction ls arbitrary: s)
  case Nil
  then show ?case by simp
next
  case (Cons l ls)
  show ?case
  proof (cases "fst l = mouseup \<and> attached mouseup (rid (snd l)) (listeners s)")
    case True
    obtain s1 k1 where e: "onDragEnd rte (snd l) m s = (s1, k1)"
      by (cases "onDragEnd rte (snd l) m s")
    have hn: "heights_numeric s1"
      using heights_numeric_onDragEnd[of s "snd l" rte m] Cons.prems e by simp
    have "UpdateNode n \<in> set k1 \<or> UpdateNode n \<in> set (snd (fire_mouseup rte m ls s1))"
      using Cons.prems(3) True e by (simp add: split_beta)
    then show ?thesis
    proof
      assume "UpdateNode n \<in> set k1"
      then show ?thesis
        using onDragEnd_calls_height[of "snd l" n rte m s] Cons.prems(2) e by simp
    next
      assume "UpdateNode n \<in> set (snd (fire_mouseup rte m ls s1))"
      then show ?thesis using Cons.IH[OF hn] Cons.prems(2) by simp
    qed
  next
    case False
    then show ?thesis using Cons by auto
  qed
qed

section \<open>The widget: a drag from start to commit\<close>

lemma fire_mousemove_frame:
  "listeners (fire_mousemove x y ls s) = listeners s
   \<and> dragRef (fire_mousemove x y ls s) = dragRef s
   \<and> mounted (fire_mousemove x y ls s) = mounted s"
  by (induction ls arbitrary: s) (auto simp: onDragMove_def Let_def split: option.splits)

lemma dragging_onDragStart:
  "listeners s = [] \<Longrightarrow> dragging c (onDragStart c x y m s)"
  by (simp add: dragging_def onDragStart_def addEventListener_def attached_def Let_def)

lemma dragging_mid_step:
  "dragging c s \<Longrightarrow> drag_mid e
     \<Longrightarrow> dragging c (fst (step J rte e s)) \<and> snd (step J rte e s) = []"
proof (cases e)
  case (MouseMove x y)
  assume d: "dragging c s"
  have "dragging c (fire_mousemove x y (listeners s) s)"
    using d fire_mousemove_frame[of x y "listeners s" s] unfolding dragging_def by simp
  then show ?thesis using MouseMove by simp
next
  case (Rerender el)
  assume "dragging c s"
  then show ?thesis using Rerender by (simp add: dragging_def)
qed simp_all

lemma dragging_mid_run:
  "dragging c s \<Longrightarrow> list_all drag_mid es
     \<Longrightarrow> dragging c (fst (run J rte es s)) \<and> snd (run J rte es s) = []"
proof (induction es arbitrary: s)
  case Nil
  then show ?case by simp
next
  case (Cons e es)
  have 1: "dragging c (fst (step J rte e s))" and 2: "snd (step J rte e s) = []"
    using dragging_mid_step[of c s e J rte] Cons.prems by auto
  have 3: "dragging c (fst (run J rte es (fst (step J rte e s))))
           \<and> snd (run J rte es (fst (step J rte e s))) = []"
    using Cons.IH[OF 1] Cons.prems by simp
  show ?case using 2 3 by (simp add: split_beta)
qed

lemma run_append:
  "run J rte (xs @ ys) s =
     (let (s1, k1) = run J rte xs s; (s2, k2) = run J rte ys s1 in (s2, k1 @ k2))"
  by (induction xs arbitrary: s) (auto simp: split_beta)

lemma mouseup_while_dragging:
  assumes "dragging c s"
  shows "step J rte (MouseUp m) s = onDragEnd rte c m s"
  using assms by (simp add: dragging_def attached_def split_beta)

lemma onDragEnd_while_dragging:
  assumes "dragging c s"
  shows "snd (onDragEnd rte c m s) =
           (if has_updateNode rte
            then [UpdateNode ((c_element c)
                    \<lparr> attrs := Some ((attrs_or_empty (c_element c))
                         \<lparr> width := Some (case c_width c of
                                            WNum n \<Rightarrow> WNum (Math_max 240 n)
                                          | WStr p \<Rightarrow> WNum (Num (case m of Some r \<Rightarrow> r
                                                                    | None \<Rightarrow> 520))),
                           height := Some (Math_max 200 (c_height c)) \<rparr>) \<rparr>)]
            else [])
       \<and> listeners (fst (onDragEnd rte c m s)) = []
       \<and> dragRef (fst (onDragEnd rte c m s)) = None"
  using assms
  by (auto simp: dragging_def onDragEnd_def persistSize_def removeEventListener_def Let_def
      split: option.splits)

lemma drag_sequence_run:
  assumes "mounted s" and "listeners s = []" and "list_all drag_mid mid"
  shows "snd (run J rte (MouseDown x y m0 # mid @ [MouseUp m1]) s)
           = snd (onDragEnd rte (latest s) m1
                   (fst (run J rte mid (onDragStart (latest s) x y m0 s))))
       \<and> dragging (latest s) (fst (run J rte mid (onDragStart (latest s) x y m0 s)))
       \<and> fst (run J rte (MouseDown x y m0 # mid @ [MouseUp m1]) s)
           = fst (onDragEnd rte (latest s) m1
                   (fst (run J rte mid (onDragStart (latest s) x y m0 s))))"
proof -
  let ?c = "latest s"
  let ?s1 = "onDragStart ?c x y m0 s"
  have d1: "dragging ?c ?s1" using assms(2) by (rule dragging_onDragStart)
  have d2: "dragging ?c (fst (run J rte mid ?s1))" and k2: "snd (run J rte mid ?s1) = []"
    using dragging_mid_run[OF d1 assms(3)] by auto
  have up: "step J rte (MouseUp m1) (fst (run J rte mid ?s1))
              = onDragEnd rte ?c m1 (fst (run J rte mid ?s1))"
    using d2 by (rule mouseup_while_dragging)
  have "run J rte (MouseDown x y m0 # mid @ [MouseUp m1]) s
          = (fst (onDragEnd rte ?c m1 (fst (run J rte mid ?s1))),
             snd (onDragEnd rte ?c m1 (fst (run J rte mid ?s1))))"
    using assms(1) k2 up by (simp add: run_append split_beta)
  then show ?thesis using d2 by simp
qed

text \<open>
  C2, amended.  In every reachable state of the widget, whatever a pointer-up commits has a
  height of at least 200.  Moreover take a mounted widget in a reachable state with no
  listener of an earlier drag attached, on a host with \<^verbatim>\<open>updateNode\<close>, and any drag: the
  button down on the handle, any pointer moves and renders, the button up.  The drag makes
  one commit.  Its height is the larger of 200 and the height of the render the drag began
  in.  Its width is at least 240 when the width of that render is a number (not \<open>NaN\<close>);
  when that width is a string, the committed width is the width measured for the container
  at the end of the drag, or 520 with no container, and is not clamped.  The commit
  detaches the listeners of the drag.
\<close>

theorem drag_commit_bounds:
  assumes "reachable J rte el s"
  shows "(\<forall>m n. UpdateNode n \<in> set (snd (step J rte (MouseUp m) s))
            \<longrightarrow> (\<exists>h. height (attrs_or_empty n) = Some (Num h) \<and> 200 \<le> h))
       \<and> (mounted s \<and> listeners s = [] \<and> list_all drag_mid mid \<and> has_updateNode rte
            \<longrightarrow> (\<exists>n h0 h.
                   snd (run J rte (MouseDown x y m0 # mid @ [MouseUp m1]) s) = [UpdateNode n]
                 \<and> c_height (latest s) = Num h0
                 \<and> height (attrs_or_empty n) = Some (Num h) \<and> h = max 200 h0 \<and> 200 \<le> h
                 \<and> width (attrs_or_empty n)
                     = Some (case c_width (latest s) of
                               WNum NaN \<Rightarrow> WNum NaN
                             | WNum (Num w) \<Rightarrow> WNum (Num (max 240 w))
                             | WStr p \<Rightarrow> WNum (Num (case m1 of Some r \<Rightarrow> r
                                                       | None \<Rightarrow> 520)))
                 \<and> listeners (fst (run J rte (MouseDown x y m0 # mid @ [MouseUp m1]) s))
                     = []))"
proof -
  let ?c = "latest s"
  let ?s2 = "fst (run J rte mid (onDragStart ?c x y m0 s))"
  let ?evs = "MouseDown x y m0 # mid @ [MouseUp m1]"
  have hn: "heights_numeric s" using assms by (rule reachable_heights_numeric)
  then obtain h0 where h0: "c_height ?c = Num h0"
    by (cases "c_height ?c") (auto simp: heights_numeric_def)
  have general: "\<exists>h. height (attrs_or_empty n) = Some (Num h) \<and> 200 \<le> h"
    if "UpdateNode n \<in> set (snd (step J rte (MouseUp m) s))" for m n
    using that hn fire_mouseup_calls_height[of s "listeners s" n rte m]
    by (simp add: heights_numeric_def)
  have clean: "\<exists>n h0 h.
                   snd (run J rte ?evs s) = [UpdateNode n]
                 \<and> c_height (latest s) = Num h0
                 \<and> height (attrs_or_empty n) = Some (Num h) \<and> h = max 200 h0 \<and> 200 \<le> h
                 \<and> width (attrs_or_empty n)
                     = Some (case c_width (latest s) of
                               WNum NaN \<Rightarrow> WNum NaN
                             | WNum (Num w) \<Rightarrow> WNum (Num (max 240 w))
                             | WStr p \<Rightarrow> WNum (Num (case m1 of Some r \<Rightarrow> r
                                                       | None \<Rightarrow> 520)))
                 \<and> listeners (fst (run J rte ?evs s)) = []"
    if c: "mounted s" "listeners s = []" "list_all drag_mid mid" "has_updateNode rte"
  proof -
    have seq: "snd (run J rte ?evs s) = snd (onDragEnd rte ?c m1 ?s2)"
      and dr: "dragging ?c ?s2"
      and fin: "fst (run J rte ?evs s) = fst (onDragEnd rte ?c m1 ?s2)"
      using drag_sequence_run[OF c(1,2,3)] by auto
    note e = onDragEnd_while_dragging[OF dr, of rte m1]
    show ?thesis
      using e c(4) h0 seq fin
      by (auto simp: attrs_or_empty_def split: numstr.splits number.splits)
  qed
  show ?thesis using general clean by blast
qed

theorem drag_commit_bounds_witness:
  "reachable js_fragment host_full pixel_node (mount pixel_node)
   \<and> mounted (mount pixel_node) \<and> listeners (mount pixel_node) = []
   \<and> list_all drag_mid [MouseMove (-500) (-900), Rerender pixel_node, MouseMove (-700) (-900)]
   \<and> has_updateNode host_full
   \<and> snd (run js_fragment host_full
            (MouseDown 0 0 (Some 600)
               # [MouseMove (-500) (-900), Rerender pixel_node, MouseMove (-700) (-900)]
               @ [MouseUp (Some 600)])
            (mount pixel_node))
       = [UpdateNode (pixel_node\<lparr> attrs := Some (superstore_params
             \<lparr> width := Some (WNum (Num 300)), height := Some (Num 520) \<rparr>) \<rparr>)]
   \<and> snd (run js_fragment host_full
            (MouseDown 0 0 (Some 600) # [MouseMove 40 40] @ [MouseUp (Some 600)])
            (mount superstore_node))
       = [UpdateNode (superstore_node\<lparr> attrs := Some (superstore_params
             \<lparr> width := Some (WNum (Num 600)), height := Some (Num 520) \<rparr>) \<rparr>)]
   \<and> snd (step js_fragment host_full (MouseUp None)
            (fst (step js_fragment host_full (MouseDown 0 0 None) (mount small_node))))
       = [UpdateNode (small_node\<lparr> attrs := Some (small_params
             \<lparr> width := Some (WNum (Num 240)), height := Some (Num 200) \<rparr>) \<rparr>)]"
proof -
  have r1: "reachable js_fragment host_full pixel_node (mount pixel_node)"
    by (rule reach_mount)
  have r2: "reachable js_fragment host_full superstore_node (mount superstore_node)"
    by (rule reach_mount)
  have r3: "reachable js_fragment host_full small_node
              (fst (step js_fragment host_full (MouseDown 0 0 None) (mount small_node)))"
    by (rule reach_step) (rule reach_mount)
  have m1: "mounted (mount pixel_node)" and l1: "listeners (mount pixel_node) = []"
    and m2: "mounted (mount superstore_node)" and l2: "listeners (mount superstore_node) = []"
    by (simp_all add: mount_def)
  have d1: "list_all drag_mid [MouseMove (-500) (-900), Rerender pixel_node, MouseMove (-700) (-900)]"
    and d2: "list_all drag_mid [MouseMove 40 40]"
    by simp_all
  have u: "has_updateNode host_full" by (simp add: host_full_def)
  note t1 = drag_commit_bounds[OF r1, of _ 0 0 "Some 600" "Some 600"]
  note t2 = drag_commit_bounds[OF r2, of _ 0 0 "Some 600" "Some 600"]
  note t3 = drag_commit_bounds[OF r3]
  have w1: "c_width (latest (mount pixel_node)) = WNum (Num 300)"
    and h1: "c_height (latest (mount pixel_node)) = Num 520"
    by (simp_all add: mount_def widthAttr_def heightAttr_def attrs_or_empty_def pixel_node_def
        superstore_node_def superstore_params_def num_or_def)
  have w2: "c_width (latest (mount superstore_node)) = WStr ''100%''"
    and h2: "c_height (latest (mount superstore_node)) = Num 520"
    by (simp_all add: mount_def widthAttr_def heightAttr_def attrs_or_empty_def
        superstore_node_def superstore_params_def num_or_def)
  from t1 m1 l1 d1 u w1 h1
  obtain n where n: "snd (run js_fragment host_full
            (MouseDown 0 0 (Some 600)
               # [MouseMove (-500) (-900), Rerender pixel_node, MouseMove (-700) (-900)]
               @ [MouseUp (Some 600)])
            (mount pixel_node)) = [UpdateNode n]"
      "height (attrs_or_empty n) = Some (Num 520)"
      "width (attrs_or_empty n) = Some (WNum (Num 300))"
    by fastforce
  from t2 m2 l2 d2 u w2 h2
  obtain k where k: "snd (run js_fragment host_full
            (MouseDown 0 0 (Some 600) # [MouseMove 40 40] @ [MouseUp (Some 600)])
            (mount superstore_node)) = [UpdateNode k]"
      "height (attrs_or_empty k) = Some (Num 520)"
      "width (attrs_or_empty k) = Some (WNum (Num 600))"
    by fastforce
  have c1: "snd (run js_fragment host_full
            (MouseDown 0 0 (Some 600)
               # [MouseMove (-500) (-900), Rerender pixel_node, MouseMove (-700) (-900)]
               @ [MouseUp (Some 600)])
            (mount pixel_node))
       = [UpdateNode (pixel_node\<lparr> attrs := Some (superstore_params
             \<lparr> width := Some (WNum (Num 300)), height := Some (Num 520) \<rparr>) \<rparr>)]"
    by (simp add: mount_def onDragStart_def onDragMove_def onDragEnd_def persistSize_def
        addEventListener_def removeEventListener_def attached_def widthAttr_def heightAttr_def
        attrs_or_empty_def pixel_node_def superstore_node_def superstore_params_def num_or_def
        host_full_def Let_def)
  have c2: "snd (run js_fragment host_full
            (MouseDown 0 0 (Some 600) # [MouseMove 40 40] @ [MouseUp (Some 600)])
            (mount superstore_node))
       = [UpdateNode (superstore_node\<lparr> attrs := Some (superstore_params
             \<lparr> width := Some (WNum (Num 600)), height := Some (Num 520) \<rparr>) \<rparr>)]"
    by (simp add: mount_def onDragStart_def onDragMove_def onDragEnd_def persistSize_def
        addEventListener_def removeEventListener_def attached_def widthAttr_def heightAttr_def
        attrs_or_empty_def superstore_node_def superstore_params_def num_or_def
        host_full_def Let_def)
  have c3: "snd (step js_fragment host_full (MouseUp None)
            (fst (step js_fragment host_full (MouseDown 0 0 None) (mount small_node))))
       = [UpdateNode (small_node\<lparr> attrs := Some (small_params
             \<lparr> width := Some (WNum (Num 240)), height := Some (Num 200) \<rparr>) \<rparr>)]"
    by (simp add: mount_def onDragStart_def onDragEnd_def persistSize_def
        addEventListener_def removeEventListener_def attached_def widthAttr_def heightAttr_def
        attrs_or_empty_def small_node_def small_params_def num_or_def host_full_def Let_def)
  have g: "\<forall>m n. UpdateNode n \<in> set (snd (step js_fragment host_full (MouseUp m)
              (fst (step js_fragment host_full (MouseDown 0 0 None) (mount small_node)))))
            \<longrightarrow> (\<exists>h. height (attrs_or_empty n) = Some (Num h) \<and> 200 \<le> h)"
    using t3[of "[]" 0 0 None None] by (rule conjunct1)
  have i: "UpdateNode (small_node\<lparr> attrs := Some (small_params
             \<lparr> width := Some (WNum (Num 240)), height := Some (Num 200) \<rparr>) \<rparr>)
           \<in> set (snd (step js_fragment host_full (MouseUp None)
              (fst (step js_fragment host_full (MouseDown 0 0 None) (mount small_node)))))"
    unfolding c3 by simp
  have "\<exists>h. height (attrs_or_empty (small_node\<lparr> attrs := Some (small_params
             \<lparr> width := Some (WNum (Num 240)), height := Some (Num 200) \<rparr>) \<rparr>)) = Some (Num h)
          \<and> 200 \<le> h"
    using g[rule_format, OF i] .
  then show ?thesis using r1 m1 l1 d1 u n k c1 c2 c3 by simp
qed

theorem drag_commit_width_counterexample:
  "snd (run js_fragment host_full [MouseDown 0 0 (Some 180), MouseUp (Some 180)]
          (mount superstore_node))
     = [UpdateNode
          \<lparr> type = ''tableau_embed'',
            attrs = Some \<lparr> server = Some ''https://public.tableau.com'',
                           workbook = Some ''Superstore_116'', view = Some ''Overview'',
                           width = Some (WNum (Num 180)), height = Some (Num 520),
                           toolbar = Some Bottom, inline = Some False,
                           label = Some (''Superstore '' @ en_dash @ '' Overview'') \<rparr>,
            children = [[]] \<rparr>]
   \<and> \<not> (240 \<le> (180::real))"
  by (simp add: mount_def onDragStart_def onDragEnd_def persistSize_def
      addEventListener_def removeEventListener_def attached_def widthAttr_def heightAttr_def
      attrs_or_empty_def superstore_node_def superstore_params_def num_or_def
      host_full_def Let_def)

section \<open>What the writes of the attributes guarantee\<close>













section \<open>The listeners of a drag\<close>

text \<open>
  The cleanup of the effect removes the functions of the first render.  A drag begun by a
  later render attaches other functions, which the cleanup leaves on \<^verbatim>\<open>window\<close>.
\<close>

lemma unmount_leaves_later_listeners:
  assumes "mounted s" and "listeners s = []" and "rid (latest s) \<noteq> 0"
  shows "listeners (fst (run J rte [MouseDown x y m, Unmount] s))
           = [(mousemove, latest s), (mouseup, latest s)]"
  using assms
  by (simp add: onDragStart_def addEventListener_def removeEventListener_def attached_def
      Let_def)

lemma unmount_removes_first_listeners:
  assumes "mounted s" and "listeners s = []" and "rid (latest s) = 0"
  shows "listeners (fst (run J rte [MouseDown x y m, Unmount] s)) = []"
  using assms
  by (simp add: onDragStart_def addEventListener_def removeEventListener_def attached_def
      Let_def)

text \<open>
  A second way to the same end: the button goes down twice with a render in between and
  no button up (a second button pressed on the handle).  The first listener of the next
  \<^verbatim>\<open>mouseup\<close> commits and clears \<^verbatim>\<open>dragRef\<close>; the second returns at its guard before it
  removes anything, and its pair stays attached through the later releases.
\<close>

lemma second_mousedown_leaves_listeners:
  "map (\<lambda>l. (fst l, rid (snd l)))
     (listeners (fst (run js_fragment host_full
        [MouseDown 0 0 (Some 600), MouseMove 10 10, Rerender superstore_node,
         MouseDown 10 10 (Some 600), MouseUp (Some 600), MouseUp (Some 600)]
        (mount superstore_node))))
     = [(mousemove, 1), (mouseup, 1)]"
  by (simp add: mount_def onDragStart_def onDragMove_def onDragEnd_def persistSize_def
      addEventListener_def removeEventListener_def attached_def widthAttr_def heightAttr_def
      attrs_or_empty_def superstore_node_def superstore_params_def num_or_def host_full_def
      Let_def)

text \<open>
  C7.  The widget is mounted; the user types \<^verbatim>\<open>50%\<close> into the width field and React
  renders again; the button goes down on the handle; the widget is unmounted.  The two
  listeners of the drag, functions of the second render, are still attached after the
  teardown.
\<close>

theorem unmount_leaves_listeners:
  "\<not> mounted (fst (run js_fragment host_full
        [WidthChange ''50%'', Rerender superstore_node, MouseDown 0 0 (Some 600), Unmount]
        (mount superstore_node)))
   \<and> map (\<lambda>l. (fst l, rid (snd l)))
       (listeners (fst (run js_fragment host_full
          [WidthChange ''50%'', Rerender superstore_node, MouseDown 0 0 (Some 600), Unmount]
          (mount superstore_node))))
     = [(mousemove, 1), (mouseup, 1)]"
  by (simp add: mount_def onDragStart_def addEventListener_def removeEventListener_def
      attached_def js_fragment_def trim_fragment_def is_space_def ends_with_percent_def
      Let_def)

end
